theory Spec2Isabelle
  imports Complex_Main "HOL-Library.Log_Nat"
begin

section \<open>Python values used by syncmeg3.py\<close>

text \<open>
  Strings are lists of characters with code points below 256. A Python \<open>float\<close> is an
  IEEE 754 binary64 value: \<open>Finite s m e\<close> is the value \<open>(-1)\<^sup>s * m * 2\<^sup>e\<close> with sign
  bit \<open>s\<close>, significand \<open>0 \<le> m < 2\<^sup>5\<^sup>3\<close> and exponent \<open>-1074 \<le> e \<le> 971\<close>, where
  \<open>2\<^sup>5\<^sup>2 \<le> m\<close> unless \<open>e = -1074\<close>; the zeros are \<open>Finite s 0 (-1074)\<close>.
\<close>

datatype pyfloat = Finite bool int int | PosInf | NegInf | NaN

text \<open>The objects \<open>json.loads\<close> builds. A \<open>JDict\<close> lists the items of the resulting dict.\<close>

datatype json =
    JNull
  | JBool bool
  | JInt int
  | JFloat pyfloat
  | JStr string
  | JList "json list"
  | JDict "(string \<times> json) list"

text \<open>
  The exceptions (all subclasses of \<open>Exception\<close>) that the modelled operations raise.
  \<open>CollaboratorError\<close> stands for whatever \<open>subprocess.run\<close>, \<open>json.loads\<close>,
  \<open>os.listdir\<close>, \<open>os.getcwd\<close> or the opening and writing of the log file raise, and
  carries an identifying text.
\<close>

datatype exn =
    InvalidDurationFormat
  | InvalidIntLiteral string
  | IntDigitLimit nat
  | InvalidFloatLiteral string
  | IntTooLargeForFloat
  | RoundedValueTooLarge
  | AttributeError json string
  | NotIterable json
  | CollaboratorError string

subsection \<open>Characters and digit strings\<close>

definition is_space :: "char \<Rightarrow> bool" where
  "is_space c = ((of_char c :: int) \<in> {9, 10, 11, 12, 13, 32, 133, 160})"

definition is_digit :: "char \<Rightarrow> bool" where
  "is_digit c = (48 \<le> (of_char c :: int) \<and> (of_char c :: int) \<le> 57)"

definition digit_val :: "char \<Rightarrow> int" where
  "digit_val c = of_char c - 48"

definition digits_value :: "string \<Rightarrow> int" where
  "digits_value ds = foldl (\<lambda>n c. 10 * n + digit_val c) 0 ds"

definition ascii_lower :: "char \<Rightarrow> char" where
  "ascii_lower c = (if 65 \<le> (of_char c :: int) \<and> (of_char c :: int) \<le> 90
                    then char_of (of_char c + (32 :: int)) else c)"

definition strip :: "string \<Rightarrow> string" where
  "strip s = rev (dropWhile is_space (rev (dropWhile is_space s)))"

text \<open>\<open>str.split(sep)\<close> for a one-character separator.\<close>

fun split_on :: "char \<Rightarrow> string \<Rightarrow> string list" where
  "split_on sep [] = [[]]"
| "split_on sep (c # cs) =
     (if c = sep then [] # split_on sep cs
      else (case split_on sep cs of [] \<Rightarrow> [[c]] | p # ps \<Rightarrow> (c # p) # ps))"

text \<open>An optional sign in front of a number: whether it is a minus, and the rest.\<close>

definition take_sign :: "string \<Rightarrow> bool \<times> string" where
  "take_sign s =
     (case s of
        [] \<Rightarrow> (False, [])
      | c # r \<Rightarrow> if c = CHR ''-'' then (True, r)
                else if c = CHR ''+'' then (False, r)
                else (False, s))"

subsection \<open>The built-in \<open>int(str)\<close>\<close>

text \<open>
  Digits with single underscores between them; the result is the digits alone.
\<close>

fun int_digits :: "string \<Rightarrow> string option" where
  "int_digits [] = None"
| "int_digits [c] = (if is_digit c then Some [c] else None)"
| "int_digits (c # d # rest) =
     (if \<not> is_digit c then None
      else if d = CHR ''_'' then map_option (Cons c) (int_digits rest)
      else map_option (Cons c) (int_digits (d # rest)))"

text \<open>
  \<open>int(s)\<close> in base 10: surrounding whitespace, an optional sign, the digits. The
  interpreter refuses more than \<open>maxd\<close> digits when \<open>maxd\<close> is positive
  (\<open>sys.get_int_max_str_digits()\<close>, 4300 unless changed, 0 for no limit; the limit is
  only looked at beyond 640 digits).
\<close>

definition py_int :: "nat \<Rightarrow> string \<Rightarrow> exn + int" where
  "py_int maxd s =
     (let (neg, v) = take_sign (dropWhile is_space s);
          body = takeWhile (\<lambda>c. is_digit c \<or> c = CHR ''_'') v;
          rest = dropWhile (\<lambda>c. is_digit c \<or> c = CHR ''_'') v
      in case int_digits body of
           None \<Rightarrow> Inl (InvalidIntLiteral s)
         | Some ds \<Rightarrow>
             if dropWhile is_space rest \<noteq> [] then Inl (InvalidIntLiteral s)
             else if 640 < int (length ds) \<and> 0 < maxd \<and> int maxd < int (length ds)
               then Inl (IntDigitLimit (length ds))
             else Inr (if neg then - digits_value ds else digits_value ds))"

subsection \<open>Binary64 arithmetic\<close>

text \<open>The quotient \<open>a / b\<close> rounded to the nearest integer, ties to the even one.\<close>

definition div_half_even :: "int \<Rightarrow> int \<Rightarrow> int" where
  "div_half_even a b =
     (let q = a div b; r = a mod b
      in if 2 * r < b then q
         else if b < 2 * r then q + 1
         else if even q then q else q + 1)"

text \<open>The integer part of the binary logarithm of \<open>a / b\<close>, for positive \<open>a\<close> and \<open>b\<close>.\<close>

definition floor_log2 :: "int \<Rightarrow> int \<Rightarrow> int" where
  "floor_log2 a b =
     (let k = bitlen a - bitlen b
      in if 0 \<le> k then (if b * 2 ^ nat k \<le> a then k else k - 1)
         else (if b \<le> a * 2 ^ nat (- k) then k else k - 1))"

text \<open>
  The binary64 value nearest to the magnitude \<open>a / b\<close> (\<open>a \<ge> 0\<close>, \<open>b > 0\<close>) with sign
  \<open>neg\<close>: ties go to the even significand, and the result is infinite from \<open>2 ^ 1024\<close> on.
\<close>

definition rnd :: "bool \<Rightarrow> int \<Rightarrow> int \<Rightarrow> pyfloat" where
  "rnd neg a b =
     (if a = 0 then Finite neg 0 (- 1074)
      else
        let e = max (floor_log2 a b - 52) (- 1074);
            m = (if 0 \<le> e then div_half_even a (b * 2 ^ nat e)
                 else div_half_even (a * 2 ^ nat (- e)) b);
            m' = (if m = 2 ^ 53 then 2 ^ 52 else m);
            e' = (if m = 2 ^ 53 then e + 1 else e)
        in if 971 < e' then (if neg then NegInf else PosInf) else Finite neg m' e')"

text \<open>Conversion of an \<open>int\<close> operand to \<open>float\<close>, as mixed arithmetic does it.\<close>

definition int_to_float :: "int \<Rightarrow> exn + pyfloat" where
  "int_to_float n =
     (case rnd (n < 0) \<bar>n\<bar> 1 of
        PosInf \<Rightarrow> Inl IntTooLargeForFloat
      | NegInf \<Rightarrow> Inl IntTooLargeForFloat
      | f \<Rightarrow> Inr f)"

text \<open>The signed significand of a finite value once its exponent is lowered to \<open>e0\<close>.\<close>

definition scaled :: "int \<Rightarrow> bool \<Rightarrow> int \<Rightarrow> int \<Rightarrow> int" where
  "scaled e0 s m e = (if s then - (m * 2 ^ nat (e - e0)) else m * 2 ^ nat (e - e0))"

fun float_add :: "pyfloat \<Rightarrow> pyfloat \<Rightarrow> pyfloat" where
  "float_add NaN y = NaN"
| "float_add x NaN = NaN"
| "float_add PosInf NegInf = NaN"
| "float_add NegInf PosInf = NaN"
| "float_add PosInf y = PosInf"
| "float_add NegInf y = NegInf"
| "float_add x PosInf = PosInf"
| "float_add x NegInf = NegInf"
| "float_add (Finite s1 m1 e1) (Finite s2 m2 e2) =
     (let e0 = min e1 e2;
          t = scaled e0 s1 m1 e1 + scaled e0 s2 m2 e2
      in if t = 0 then Finite (s1 \<and> s2) 0 (- 1074)
         else if 0 \<le> e0 then rnd (t < 0) (\<bar>t\<bar> * 2 ^ nat e0) 1
         else rnd (t < 0) \<bar>t\<bar> (2 ^ nat (- e0)))"

text \<open>\<open>int + float\<close>.\<close>

definition int_add_float :: "int \<Rightarrow> pyfloat \<Rightarrow> exn + pyfloat" where
  "int_add_float n y = (case int_to_float n of Inl e \<Rightarrow> Inl e | Inr x \<Rightarrow> Inr (float_add x y))"

text \<open>
  \<open>round(x, 4)\<close>: the decimal with four places nearest to the exact value of \<open>x\<close>
  (ties to even), converted back to binary64; a value that is not finite is returned as it is.
\<close>

fun py_round4 :: "pyfloat \<Rightarrow> exn + pyfloat" where
  "py_round4 (Finite s m e) =
     (let n = (if 0 \<le> e then m * 2 ^ nat e * 10000
               else div_half_even (m * 10000) (2 ^ nat (- e)))
      in case rnd s n 10000 of
           PosInf \<Rightarrow> Inl RoundedValueTooLarge
         | NegInf \<Rightarrow> Inl RoundedValueTooLarge
         | f \<Rightarrow> Inr f)"
| "py_round4 f = Inr f"

text \<open>The comparison \<open>x < y\<close> of two floats.\<close>

fun float_lt :: "pyfloat \<Rightarrow> pyfloat \<Rightarrow> bool" where
  "float_lt NaN y = False"
| "float_lt x NaN = False"
| "float_lt PosInf y = False"
| "float_lt x NegInf = False"
| "float_lt x PosInf = True"
| "float_lt NegInf y = True"
| "float_lt (Finite s1 m1 e1) (Finite s2 m2 e2) =
     (let e0 = min e1 e2 in scaled e0 s1 m1 e1 < scaled e0 s2 m2 e2)"

subsection \<open>The built-in \<open>float(str)\<close>\<close>

text \<open>
  Underscores are dropped when each stands between two digits; \<open>prev\<close> is the character
  before.
\<close>

fun underscore_scan :: "char \<Rightarrow> string \<Rightarrow> string option" where
  "underscore_scan prev [] = (if prev = CHR ''_'' then None else Some [])"
| "underscore_scan prev (c # cs) =
     (if c = CHR ''_'' then (if is_digit prev then underscore_scan c cs else None)
      else if prev = CHR ''_'' \<and> \<not> is_digit c then None
      else map_option (Cons c) (underscore_scan c cs))"

definition float_underscores :: "string \<Rightarrow> string option" where
  "float_underscores s = (if CHR ''_'' \<in> set s then underscore_scan (CHR 0x00) s else Some s)"

text \<open>The exponent part of a decimal literal: empty, or \<open>e\<close>, an optional sign and digits.\<close>

definition parse_exponent :: "string \<Rightarrow> int option" where
  "parse_exponent s =
     (case s of
        [] \<Rightarrow> Some 0
      | c # r \<Rightarrow>
          if c = CHR ''e'' \<or> c = CHR ''E'' then
            (let (neg, ds) = take_sign r
             in if ds \<noteq> [] \<and> list_all is_digit ds
                then Some (if neg then - digits_value ds else digits_value ds)
                else None)
          else None)"

text \<open>
  A decimal literal: sign, digits, an optional point and digits (one digit at least), an
  optional exponent. The result is the sign and the magnitude \<open>n * 10\<^sup>k\<close> as \<open>(n, k)\<close>.
\<close>

definition parse_decimal :: "string \<Rightarrow> (bool \<times> int \<times> int) option" where
  "parse_decimal s =
     (let (neg, r0) = take_sign s;
          d1 = takeWhile is_digit r0;
          r1 = dropWhile is_digit r0;
          pt = (r1 \<noteq> [] \<and> hd r1 = CHR ''.'');
          d2 = (if pt then takeWhile is_digit (tl r1) else []);
          r2 = (if pt then dropWhile is_digit (tl r1) else r1)
      in if d1 = [] \<and> d2 = [] then None
         else case parse_exponent r2 of
                None \<Rightarrow> None
              | Some ex \<Rightarrow>
                  Some (neg, digits_value (d1 @ d2), ex - int (length d2)))"

definition parse_inf_or_nan :: "string \<Rightarrow> pyfloat option" where
  "parse_inf_or_nan s =
     (let (neg, r) = take_sign s; w = map ascii_lower r
      in if w = ''inf'' \<or> w = ''infinity'' then Some (if neg then NegInf else PosInf)
         else if w = ''nan'' then Some NaN
         else None)"

definition py_float :: "string \<Rightarrow> exn + pyfloat" where
  "py_float s =
     (case float_underscores (strip s) of
        None \<Rightarrow> Inl (InvalidFloatLiteral s)
      | Some u \<Rightarrow>
          (case parse_decimal u of
             Some (neg, n, k) \<Rightarrow>
               Inr (if 0 \<le> k then rnd neg (n * 10 ^ nat k) 1 else rnd neg n (10 ^ nat (- k)))
           | None \<Rightarrow>
               (case parse_inf_or_nan u of
                  Some f \<Rightarrow> Inr f
                | None \<Rightarrow> Inl (InvalidFloatLiteral s))))"

subsection \<open>Other string operations\<close>




text \<open>The last index of a character satisfying \<open>P\<close>, or \<open>-1\<close> (\<open>str.rfind\<close>).\<close>

fun rfind :: "(char \<Rightarrow> bool) \<Rightarrow> string \<Rightarrow> int" where
  "rfind P [] = - 1"
| "rfind P (c # cs) =
     (if list_ex P cs then rfind P cs + 1 else if P c then 0 else - 1)"

text \<open>
  \<open>os.path.splitext\<close> (\<open>genericpath._splitext\<close>): the extension starts at the last dot
  of the last path component, unless only dots precede it there. The separators are
  \<open>/\<close> and, with \<open>nt\<close> (the Windows flavour of \<open>os.path\<close>), the backslash too.
\<close>

definition splitext :: "bool \<Rightarrow> string \<Rightarrow> string \<times> string" where
  "splitext nt p =
     (let sepIndex = rfind (\<lambda>c. c = CHR ''/'' \<or> (nt \<and> c = CHR 0x5C)) p;
          dotIndex = rfind (\<lambda>c. c = CHR ''.'') p
      in if sepIndex < dotIndex \<and>
            list_ex (\<lambda>c. c \<noteq> CHR ''.'')
              (take (nat (dotIndex - (sepIndex + 1))) (drop (nat (sepIndex + 1)) p))
         then (take (nat dotIndex) p, drop (nat dotIndex) p)
         else (p, []))"

section \<open>The collaborators and the state\<close>

record completed_process =
  returncode :: int
  stdout :: string
  stderr :: string

text \<open>
  What the program finds around it. \<open>run_process\<close> and \<open>json_loads\<close> answer
  \<open>subprocess.run\<close> and \<open>json.loads\<close>: they return or raise. Within one run each command
  line is spawned once, so an answer that depends on the moment of the call is an answer
  that depends on the command line. \<open>getcwd_error\<close> is what \<open>os.getcwd\<close> raises, \<open>None\<close>
  when it returns \<open>getcwd\<close>. \<open>log_write log text\<close> is what \<open>open\<close> and \<open>write\<close> raise when
  \<open>text\<close> is to be appended to a log file that holds the entries \<open>log\<close> (the file cannot
  be opened, the text cannot be encoded, the device is full), \<open>None\<close> when the text is
  written. \<open>repr_float\<close>, \<open>str_json\<close> and \<open>str_exn\<close> are the texts an f-string puts for a
  float, for a decoded JSON value and for an exception.
\<close>

record env =
  getcwd :: string
  getcwd_error :: "exn option"
  log_write :: "string list \<Rightarrow> string \<Rightarrow> exn option"
  path_join :: "string \<Rightarrow> string \<Rightarrow> string"
  nt_paths :: bool
  isfile :: "string \<Rightarrow> bool"
  run_process :: "string list \<Rightarrow> exn + completed_process"
  json_loads :: "string \<Rightarrow> exn + json"
  listdir :: "string \<Rightarrow> exn + string list"
  int_max_str_digits :: nat
  repr_float :: "pyfloat \<Rightarrow> string"
  str_json :: "json \<Rightarrow> string"
  str_exn :: "exn \<Rightarrow> string"

text \<open>
  The effects: the entries appended to \<open>process_log.txt\<close>, one element per call of
  \<open>write_log\<close> that wrote its text, and the command lines given to \<open>subprocess.run\<close>, in
  order.
\<close>

record state =
  log_file :: "string list"
  spawned :: "string list list"

definition NL :: string where
  "NL = [CHR 0x0A]"

definition QUOTE :: string where
  "QUOTE = [CHR 0x27]"

text \<open>\<open>try: body except Exception as e: handler\<close>, the body already run.\<close>

definition try_except ::
  "(exn + 'a) \<times> state \<Rightarrow> (exn \<Rightarrow> state \<Rightarrow> (exn + 'a) \<times> state) \<Rightarrow> (exn + 'a) \<times> state" where
  "try_except body handler =
     (case body of (Inr v, st) \<Rightarrow> (Inr v, st) | (Inl e, st) \<Rightarrow> handler e st)"

definition subprocess_run :: "env \<Rightarrow> string list \<Rightarrow> state \<Rightarrow> (exn + completed_process) \<times> state" where
  "subprocess_run env cmd st = (run_process env cmd, st\<lparr>spawned := spawned st @ [cmd]\<rparr>)"

text \<open>\<open>d.get(key, default)\<close> on a decoded JSON value; only a dict has the method.\<close>

definition py_get :: "json \<Rightarrow> string \<Rightarrow> json \<Rightarrow> exn + json" where
  "py_get d key dflt =
     (case d of
        JDict items \<Rightarrow> Inr (case map_of items key of None \<Rightarrow> dflt | Some v \<Rightarrow> v)
      | _ \<Rightarrow> Inl (AttributeError d ''get''))"

text \<open>The elements a \<open>for\<close> loop visits: of a list, of a dict (its keys), of a string.\<close>

definition py_iter :: "json \<Rightarrow> exn + json list" where
  "py_iter v =
     (case v of
        JList xs \<Rightarrow> Inr xs
      | JDict items \<Rightarrow> Inr (map (\<lambda>kv. JStr (fst kv)) items)
      | JStr s \<Rightarrow> Inr (map (\<lambda>c. JStr [c]) s)
      | _ \<Rightarrow> Inl (NotIterable v))"

definition py_split :: "json \<Rightarrow> exn + string list" where
  "py_split v =
     (case v of
        JStr s \<Rightarrow> Inr (split_on (CHR '':'') s)
      | _ \<Rightarrow> Inl (AttributeError v ''split''))"

section \<open>syncmeg3.py\<close>

text \<open>
  \<open>write_log\<close> opens the log file and appends \<open>message\<close> and a newline; it has no
  \<open>try\<close>, so what \<open>open\<close> or \<open>write\<close> raise leaves it, and then no entry is counted.
\<close>

definition write_log :: "env \<Rightarrow> string \<Rightarrow> state \<Rightarrow> (exn + unit) \<times> state" where
  "write_log env message st =
     (case log_write env (log_file st) (message @ NL) of
        Some e \<Rightarrow> (Inl e, st)
      | None \<Rightarrow> (Inr (), st\<lparr>log_file := log_file st @ [message @ NL]\<rparr>))"

text \<open>The two statements \<open>write_log(message)\<close> and \<open>return value\<close>.\<close>

definition log_and_return :: "env \<Rightarrow> string \<Rightarrow> 'a \<Rightarrow> state \<Rightarrow> (exn + 'a) \<times> state" where
  "log_and_return env message value st =
     (case write_log env message st of
        (Inl e, st1) \<Rightarrow> (Inl e, st1)
      | (Inr u, st1) \<Rightarrow> (Inr value, st1))"

text \<open>The body of the \<open>try\<close> in \<open>parse_duration_to_seconds\<close>.\<close>

definition duration_seconds :: "nat \<Rightarrow> json \<Rightarrow> exn + pyfloat" where
  "duration_seconds maxd duration =
     (case py_split duration of
        Inl e \<Rightarrow> Inl e
      | Inr parts \<Rightarrow>
          (case parts of
             [hours, minutes, seconds] \<Rightarrow>
               (case py_int maxd hours of
                  Inl e \<Rightarrow> Inl e
                | Inr h \<Rightarrow>
                    (case py_int maxd minutes of
                       Inl e \<Rightarrow> Inl e
                     | Inr m \<Rightarrow>
                         (case py_float seconds of
                            Inl e \<Rightarrow> Inl e
                          | Inr s \<Rightarrow>
                              (case int_add_float (h * 3600 + m * 60) s of
                                 Inl e \<Rightarrow> Inl e
                               | Inr total_seconds \<Rightarrow> py_round4 total_seconds))))
           | _ \<Rightarrow> Inl InvalidDurationFormat))"

text \<open>The entry \<open>parse_duration_to_seconds\<close> logs when the body raises \<open>e\<close>.\<close>

definition parse_error_message :: "env \<Rightarrow> json \<Rightarrow> exn \<Rightarrow> string" where
  "parse_error_message env duration e =
     ''Error parsing duration '' @ QUOTE @ str_json env duration @ QUOTE @ '': '' @ str_exn env e"

definition parse_duration_to_seconds ::
  "env \<Rightarrow> json \<Rightarrow> state \<Rightarrow> (exn + pyfloat option) \<times> state" where
  "parse_duration_to_seconds env duration st =
     try_except
       (case duration_seconds (int_max_str_digits env) duration of
          Inl e \<Rightarrow> (Inl e, st)
        | Inr total_seconds \<Rightarrow> (Inr (Some total_seconds), st))
       (\<lambda>e st'. log_and_return env (parse_error_message env duration e) None st')"

text \<open>
  The body of the loop over the tracks: the two values it reads from a track
  (\<open>track_type\<close> and \<open>tag_duration\<close>), and one pass from the values of \<open>video_time\<close> and
  \<open>audio_time\<close> so far.
\<close>

definition track_fields :: "json \<Rightarrow> exn + json \<times> json" where
  "track_fields track =
     (case py_get track ''type'' (JStr ''unknown'') of
        Inl e \<Rightarrow> Inl e
      | Inr track_type \<Rightarrow>
          (case py_get track ''properties'' (JDict []) of
             Inl e \<Rightarrow> Inl e
           | Inr properties \<Rightarrow>
               (case py_get properties ''tag_duration'' (JStr ''unknown'') of
                  Inl e \<Rightarrow> Inl e
                | Inr tag_duration \<Rightarrow> Inr (track_type, tag_duration))))"

definition track_step ::
  "env \<Rightarrow> json \<Rightarrow> pyfloat option \<times> pyfloat option \<Rightarrow> state
     \<Rightarrow> (exn + pyfloat option \<times> pyfloat option) \<times> state" where
  "track_step env track durations st =
     (case durations of (video_time, audio_time) \<Rightarrow>
     (case track_fields track of
        Inl e \<Rightarrow> (Inl e, st)
      | Inr (track_type, tag_duration) \<Rightarrow>
          if tag_duration \<noteq> JStr ''unknown'' then
            (case parse_duration_to_seconds env tag_duration st of
               (Inl e, st1) \<Rightarrow> (Inl e, st1)
             | (Inr duration_in_seconds, st1) \<Rightarrow>
                 if track_type = JStr ''video''
                   then (Inr (duration_in_seconds, audio_time), st1)
                 else if track_type = JStr ''audio''
                   then (Inr (video_time, duration_in_seconds), st1)
                 else (Inr (video_time, audio_time), st1))
          else (Inr (video_time, audio_time), st)))"

fun track_loop ::
  "env \<Rightarrow> json list \<Rightarrow> pyfloat option \<times> pyfloat option \<Rightarrow> state
     \<Rightarrow> (exn + pyfloat option \<times> pyfloat option) \<times> state" where
  "track_loop env [] durations st = (Inr durations, st)"
| "track_loop env (track # rest) durations st =
     (case track_step env track durations st of
        (Inl e, st1) \<Rightarrow> (Inl e, st1)
      | (Inr durations1, st1) \<Rightarrow> track_loop env rest durations1 st1)"

definition mkvmerge_path :: "env \<Rightarrow> string" where
  "mkvmerge_path env = path_join env (getcwd env) ''mkvmerge.exe''"

text \<open>The body of the \<open>try\<close> in \<open>get_tag_durations_and_seconds\<close>.\<close>

definition inspect_tracks ::
  "env \<Rightarrow> string \<Rightarrow> state
     \<Rightarrow> (exn + pyfloat option \<times> pyfloat option \<times> string option) \<times> state" where
  "inspect_tracks env mkv_file st =
     (case subprocess_run env [mkvmerge_path env, ''-J'', mkv_file] st of
        (Inl e, st1) \<Rightarrow> (Inl e, st1)
      | (Inr result, st1) \<Rightarrow>
          if returncode result \<noteq> 0
            then (Inr (None, None, Some (''Error running mkvmerge: '' @ stderr result)), st1)
          else
            (case json_loads env (stdout result) of
               Inl e \<Rightarrow> (Inl e, st1)
             | Inr mkv_info \<Rightarrow>
                 (case py_get mkv_info ''tracks'' (JList []) of
                    Inl e \<Rightarrow> (Inl e, st1)
                  | Inr tracks \<Rightarrow>
                      (case py_iter tracks of
                         Inl e \<Rightarrow> (Inl e, st1)
                       | Inr ts \<Rightarrow>
                           (case track_loop env ts (None, None) st1 of
                              (Inl e, st2) \<Rightarrow> (Inl e, st2)
                            | (Inr (video_time, audio_time), st2) \<Rightarrow>
                                (Inr (video_time, audio_time, None), st2))))))"

definition get_tag_durations_and_seconds ::
  "env \<Rightarrow> string \<Rightarrow> state
     \<Rightarrow> (exn + pyfloat option \<times> pyfloat option \<times> string option) \<times> state" where
  "get_tag_durations_and_seconds env mkv_file st =
     (case getcwd_error env of
        Some e \<Rightarrow> (Inl e, st)
      | None \<Rightarrow>
          if \<not> isfile env (mkvmerge_path env)
            then (Inr (None, None, Some ''Error: mkvmerge.exe not found in the current directory.''), st)
          else
            try_except (inspect_tracks env mkv_file st)
              (\<lambda>e st'. (Inr (None, None, Some (''Error processing mkvmerge output: '' @ str_exn env e)),
                         st')))"

text \<open>The text an f-string puts for \<open>video_time\<close> or \<open>audio_time\<close>.\<close>

definition str_time :: "env \<Rightarrow> pyfloat option \<Rightarrow> string" where
  "str_time env t = (case t of None \<Rightarrow> ''None'' | Some f \<Rightarrow> repr_float env f)"

definition output_file :: "env \<Rightarrow> string \<Rightarrow> string" where
  "output_file env input_file =
     (case splitext (nt_paths env) input_file of
        (file_name, file_ext) \<Rightarrow> file_name @ ''_1'' @ file_ext)"

definition sync_command :: "env \<Rightarrow> string \<Rightarrow> pyfloat \<Rightarrow> pyfloat \<Rightarrow> string list" where
  "sync_command env input_file video_time audio_time =
     [mkvmerge_path env,
      ''-o'', output_file env input_file,
      ''--sync'', ''1:0,'' @ repr_float env video_time @ ''/'' @ repr_float env audio_time,
      input_file]"

text \<open>The truth value of \<open>error\<close> in \<open>if error:\<close> (\<open>None\<close> or a string).\<close>

definition truthy :: "string option \<Rightarrow> bool" where
  "truthy error = (case error of None \<Rightarrow> False | Some s \<Rightarrow> s \<noteq> [])"

definition str_error :: "string option \<Rightarrow> string" where
  "str_error error = (case error of None \<Rightarrow> ''None'' | Some s \<Rightarrow> s)"

text \<open>
  The body of the \<open>try\<close> in \<open>sync_audio_video\<close>. When it raises, the handler finds
  \<open>log_message\<close> as the body has left it, so the exception comes with that text.
\<close>

definition run_sync ::
  "env \<Rightarrow> string \<Rightarrow> string list \<Rightarrow> string \<Rightarrow> state \<Rightarrow> (exn \<times> string + string) \<times> state" where
  "run_sync env input_file command log_message st =
     (case subprocess_run env command st of
        (Inl e, st2) \<Rightarrow> (Inl (e, log_message), st2)
      | (Inr result, st2) \<Rightarrow>
          if returncode result = 0 then
            (let log_message1 = log_message @ ''Rule: video_time < audio_time'' @ NL
                                @ ''Generated File: '' @ output_file env input_file @ NL
             in case write_log env log_message1 st2 of
                  (Inl e, st3) \<Rightarrow> (Inl (e, log_message1), st3)
                | (Inr u, st3) \<Rightarrow>
                    (Inr (''Success: '' @ input_file @ '' -> '' @ output_file env input_file), st3))
          else
            (let log_message1 = log_message @ ''Error: '' @ stderr result @ NL
             in case write_log env log_message1 st2 of
                  (Inl e, st3) \<Rightarrow> (Inl (e, log_message1), st3)
                | (Inr u, st3) \<Rightarrow>
                    (Inr (''Error processing '' @ input_file @ '': '' @ stderr result), st3)))"

definition sync_audio_video :: "env \<Rightarrow> string \<Rightarrow> state \<Rightarrow> (exn + string) \<times> state" where
  "sync_audio_video env input_file st =
     (case get_tag_durations_and_seconds env input_file st of
        (Inl e, st1) \<Rightarrow> (Inl e, st1)
      | (Inr (video_time, audio_time, error), st1) \<Rightarrow>
          if truthy error then
            log_and_return env (''Error processing '' @ input_file @ '': '' @ str_error error)
              (''Error processing '' @ input_file @ '': '' @ str_error error) st1
          else
            let log_message =
                  ''File: '' @ input_file @ NL
                  @ ''Video Time: '' @ str_time env video_time @ '' s'' @ NL
                  @ ''Audio Time: '' @ str_time env audio_time @ '' s'' @ NL
            in
              (case (video_time, audio_time) of
                 (Some v, Some a) \<Rightarrow>
                   if float_lt v a then
                     (case getcwd_error env of
                        Some e \<Rightarrow> (Inl e, st1)
                      | None \<Rightarrow>
                          (case run_sync env input_file (sync_command env input_file v a)
                                  log_message st1 of
                             (Inr outcome, st2) \<Rightarrow> (Inr outcome, st2)
                           | (Inl (e, log_message1), st2) \<Rightarrow>
                               log_and_return env (log_message1 @ ''Error: '' @ str_exn env e @ NL)
                                 (''Error executing mkvmerge for '' @ input_file @ '': ''
                                  @ str_exn env e) st2))
                   else
                     log_and_return env
                       (log_message @ ''Rule: video_time == audio_time'' @ NL @ ''Skipped'' @ NL)
                       (''Skipped: '' @ input_file @ '' (video_time == audio_time)'') st1
               | _ \<Rightarrow>
                   log_and_return env (log_message @ ''Error: Unable to retrieve durations'' @ NL)
                     (''Error: Unable to retrieve durations for '' @ input_file) st1))"



section \<open>Notions used to state the properties\<close>

text \<open>The label in front of an outcome message: \<open>Success\<close>, \<open>Skipped\<close> or \<open>Error\<close>.\<close>

definition outcome_label :: "string \<Rightarrow> string" where
  "outcome_label message = takeWhile (\<lambda>c. c \<noteq> CHR '':'' \<and> c \<noteq> CHR '' '') message"

text \<open>What \<open>parse_duration_to_seconds\<close> returns for a tag, whatever the state.\<close>

definition seconds_of :: "env \<Rightarrow> json \<Rightarrow> pyfloat option" where
  "seconds_of env duration =
     (case duration_seconds (int_max_str_digits env) duration of
        Inl e \<Rightarrow> None
      | Inr x \<Rightarrow> Some x)"

text \<open>A track of the given type whose \<open>tag_duration\<close> is not \<open>unknown\<close>, and its tag.\<close>

definition tagged :: "string \<Rightarrow> json \<Rightarrow> bool" where
  "tagged kind track =
     (case track_fields track of
        Inl e \<Rightarrow> False
      | Inr (track_type, tag_duration) \<Rightarrow>
          track_type = JStr kind \<and> tag_duration \<noteq> JStr ''unknown'')"

definition tag_of :: "json \<Rightarrow> json" where
  "tag_of track =
     (case track_fields track of
        Inl e \<Rightarrow> JNull
      | Inr (track_type, tag_duration) \<Rightarrow> tag_duration)"

text \<open>The value after the loop: the tag of the last such track, else the value before.\<close>

definition last_tagged :: "env \<Rightarrow> string \<Rightarrow> json list \<Rightarrow> pyfloat option \<Rightarrow> pyfloat option" where
  "last_tagged env kind tracks before =
     (case rev (filter (tagged kind) tracks) of
        [] \<Rightarrow> before
      | track # earlier \<Rightarrow> seconds_of env (tag_of track))"







text \<open>
  A float within the format: a significand of at most 53 bits and an exponent of at most
  971, or an infinity or a NaN.
\<close>

fun well_formed :: "pyfloat \<Rightarrow> bool" where
  "well_formed (Finite s m e) = (0 \<le> m \<and> m < 2 ^ 53 \<and> e \<le> 971)"
| "well_formed f = True"

section \<open>Sample inputs\<close>

text \<open>
  A directory with two container files and a text file, a tool that is present and reports
  the given tracks for every file, and the texts of the two floats that occur.
\<close>

definition sample_track :: "string \<Rightarrow> string \<Rightarrow> json" where
  "sample_track kind tag =
     JDict [(''type'', JStr kind), (''properties'', JDict [(''tag_duration'', JStr tag)])]"

definition sample_repr :: "pyfloat \<Rightarrow> string" where
  "sample_repr f =
     (if f = Finite False 5066549580791808 (- 49) then ''9.0''
      else if f = Finite False 5629499534213120 (- 49) then ''10.0''
      else ''float'')"

definition sample_env :: "json list \<Rightarrow> env" where
  "sample_env tracks =
     \<lparr>getcwd = ''C:'',
      getcwd_error = None,
      log_write = (\<lambda>log text. None),
      path_join = (\<lambda>a b. a @ [CHR 0x5C] @ b),
      nt_paths = True,
      isfile = (\<lambda>p. True),
      run_process = (\<lambda>cmd. Inr \<lparr>returncode = 0, stdout = ''{}'', stderr = []\<rparr>),
      json_loads = (\<lambda>s. Inr (JDict [(''tracks'', JList tracks)])),
      listdir = (\<lambda>d. Inr [''a.mkv'', ''notes.txt'', ''B.MKV'']),
      int_max_str_digits = 4300,
      repr_float = sample_repr,
      str_json = (\<lambda>j. case j of JStr s \<Rightarrow> s | _ \<Rightarrow> ''value''),
      str_exn = (\<lambda>e. ''exception'')\<rparr>"

definition nine :: pyfloat where
  "nine = Finite False 5066549580791808 (- 49)"

definition ten :: pyfloat where
  "ten = Finite False 5629499534213120 (- 49)"

text \<open>A file whose video track is the shorter one, and a file whose audio track has no tag.\<close>

definition shorter_video :: env where
  "shorter_video = sample_env [sample_track ''video'' ''0:00:09'', sample_track ''audio'' ''0:00:10'']"

definition untagged_audio :: env where
  "untagged_audio = sample_env [sample_track ''video'' ''0:00:09'', sample_track ''audio'' ''unknown'']"

text \<open>A file with two tagged video tracks, and a file whose audio tag does not parse.\<close>

definition two_videos :: env where
  "two_videos = sample_env [sample_track ''video'' ''0:00:09'', sample_track ''video'' ''0:00:10'']"



text \<open>
  A file whose video track is the longer one, a file with equal durations, and a log file
  that cannot be written.
\<close>

definition longer_video :: env where
  "longer_video = sample_env [sample_track ''video'' ''0:00:10'', sample_track ''audio'' ''0:00:09'']"

definition equal_durations :: env where
  "equal_durations = sample_env [sample_track ''video'' ''0:00:10'', sample_track ''audio'' ''0:00:10'']"


definition empty_state :: state where
  "empty_state = \<lparr>log_file = [], spawned = []\<rparr>"

section \<open>The output path\<close>

lemma rfind_bounds: "- 1 \<le> rfind P p \<and> rfind P p < int (length p)"
  by (induction p) auto

lemma rfind_nonneg_iff: "0 \<le> rfind P p \<longleftrightarrow> list_ex P p"
proof (induction p)
  case Nil
  show ?case by simp
next
  case (Cons c cs)
  with rfind_bounds [of P cs] show ?case by auto
qed

lemma rfind_hit: "0 \<le> rfind P p \<Longrightarrow> P (p ! nat (rfind P p))"
proof (induction p)
  case Nil
  then show ?case by simp
next
  case (Cons c cs)
  show ?case
  proof (cases "list_ex P cs")
    case True
    then have nn: "0 \<le> rfind P cs" by (simp add: rfind_nonneg_iff)
    then have "P (cs ! nat (rfind P cs))" by (rule Cons.IH)
    with True nn show ?thesis by (simp add: nat_add_distrib)
  next
    case False
    with Cons.prems show ?thesis by (auto split: if_splits)
  qed
qed

lemma rfind_last: "\<forall>c \<in> set (drop (nat (rfind P p + 1)) p). \<not> P c"
proof (induction p)
  case Nil
  then show ?case by simp
next
  case (Cons d ds)
  show ?case
  proof (cases "list_ex P ds")
    case True
    then have nn: "0 \<le> rfind P ds" by (simp add: rfind_nonneg_iff)
    with True have "nat (rfind P (d # ds) + 1) = Suc (nat (rfind P ds + 1))"
      by simp
    with Cons show ?thesis by simp
  next
    case False
    then show ?thesis by (auto simp: list_ex_iff)
  qed
qed



lemma splitext_cases:
  "splitext nt p = (p, []) \<or>
   (rfind (\<lambda>c. c = CHR ''/'' \<or> (nt \<and> c = CHR 0x5C)) p < rfind (\<lambda>c. c = CHR ''.'') p \<and>
    splitext nt p = (take (nat (rfind (\<lambda>c. c = CHR ''.'') p)) p, drop (nat (rfind (\<lambda>c. c = CHR ''.'') p)) p))"
  by (simp add: splitext_def Let_def)

lemma splitext_append: "splitext nt p = (name, ext) \<Longrightarrow> name @ ext = p"
  using splitext_cases [of nt p] by auto

lemma splitext_ext:
  assumes "splitext nt p = (name, ext)" and "ext \<noteq> []"
  shows "hd ext = CHR ''.'' \<and> CHR ''.'' \<notin> set (tl ext)"
proof -
  let ?d = "rfind (\<lambda>c. c = CHR ''.'') p"
  let ?s = "rfind (\<lambda>c. c = CHR ''/'' \<or> (nt \<and> c = CHR 0x5C)) p"
  from splitext_cases [of nt p] assms have lt: "?s < ?d" and ext: "ext = drop (nat ?d) p"
    by auto
  from rfind_bounds [of "\<lambda>c. c = CHR ''/'' \<or> (nt \<and> c = CHR 0x5C)" p] lt
  have d0: "0 \<le> ?d" by linarith
  from rfind_bounds [of "\<lambda>c. c = CHR ''.''" p] d0 have len: "nat ?d < length p" by linarith
  from rfind_hit [OF d0] have "p ! nat ?d = CHR ''.''" .
  with len ext have h: "hd ext = CHR ''.''" by (simp add: hd_drop_conv_nth)
  have suc: "nat (?d + 1) = Suc (nat ?d)" using d0 by simp
  have "tl (drop (nat ?d) p) = drop (Suc (nat ?d)) p"
    by (simp only: drop_Suc drop_tl)
  with ext suc have tl: "tl ext = drop (nat (?d + 1)) p" by simp
  have "\<forall>c \<in> set (tl ext). \<not> c = CHR ''.''"
    unfolding tl by (rule rfind_last)
  then have "CHR ''.'' \<notin> set (tl ext)" by blast
  with h show ?thesis by simp
qed

text \<open>
  Claim C7. The output path is the input path with \<open>_1\<close> put in front of the extension
  that \<open>os.path.splitext\<close> finds (the part from the last dot of the last component on,
  none when the path has no such dot, and then \<open>_1\<close> comes last); it differs from the
  input path; \<open>movie.mkv\<close> gives \<open>movie_1.mkv\<close> and \<open>movie\<close> gives \<open>movie_1\<close>.
\<close>

theorem output_file_inserts_suffix:
  "(case splitext (nt_paths env) p of
      (name, ext) \<Rightarrow>
        name @ ext = p \<and> output_file env p = name @ ''_1'' @ ext \<and>
        (ext = [] \<or> (hd ext = CHR ''.'' \<and> CHR ''.'' \<notin> set (tl ext))))
   \<and> output_file env p \<noteq> p
   \<and> output_file env ''movie.mkv'' = ''movie_1.mkv''
   \<and> output_file env ''movie'' = ''movie_1''"
proof -
  obtain name ext where sp: "splitext (nt_paths env) p = (name, ext)"
    by (cases "splitext (nt_paths env) p")
  have a: "name @ ext = p" using splitext_append [OF sp] .
  have b: "output_file env p = name @ ''_1'' @ ext" using sp by (simp add: output_file_def)
  have c: "ext = [] \<or> (hd ext = CHR ''.'' \<and> CHR ''.'' \<notin> set (tl ext))"
    using splitext_ext [OF sp] by blast
  have "length (output_file env p) = length p + 2" using a b by auto
  then have d: "output_file env p \<noteq> p" by auto
  have e: "output_file env ''movie.mkv'' = ''movie_1.mkv''"
    by (simp add: output_file_def splitext_def)
  have f: "output_file env ''movie'' = ''movie_1''"
    by (simp add: output_file_def splitext_def)
  from sp a b c d e f show ?thesis by simp
qed

theorem output_file_inserts_suffix_witness:
  "output_file (sample_env []) ''dir/take.1.mkv'' = ''dir/take.1_1.mkv''
   \<and> output_file (sample_env []) ''dir.d/.hidden'' = ''dir.d/.hidden_1''"
  using output_file_inserts_suffix [where env = "sample_env []" and p = "''dir/take.1.mkv''"]
  by (simp add: output_file_def splitext_def sample_env_def)

section \<open>Extraction and synchronisation of one file\<close>

lemma write_log_spawned: "write_log env message st = (r, st1) \<Longrightarrow> spawned st1 = spawned st"
  by (auto simp: write_log_def split: option.splits)

lemma log_and_return_spawned:
  "log_and_return env message v st = (r, st1) \<Longrightarrow> spawned st1 = spawned st"
  by (auto simp: log_and_return_def split: prod.splits sum.splits dest: write_log_spawned)

lemma parse_duration_to_seconds_eq:
  "parse_duration_to_seconds env d st =
     (case duration_seconds (int_max_str_digits env) d of
        Inl e \<Rightarrow> log_and_return env (parse_error_message env d e) None st
      | Inr v \<Rightarrow> (Inr (Some v), st))"
  by (simp add: parse_duration_to_seconds_def try_except_def split: sum.splits)

lemma parse_spawned:
  "parse_duration_to_seconds env d st = (r, st1) \<Longrightarrow> spawned st1 = spawned st"
  by (auto simp: parse_duration_to_seconds_eq split: sum.splits dest: log_and_return_spawned)

lemma track_step_spawned:
  "track_step env t ds st = (r, st1) \<Longrightarrow> spawned st1 = spawned st"
  by (auto simp: track_step_def split: prod.splits sum.splits if_splits dest: parse_spawned)

lemma track_loop_spawned:
  "track_loop env ts ds st = (r, st1) \<Longrightarrow> spawned st1 = spawned st"
proof (induction ts arbitrary: ds st)
  case Nil
  then show ?case by simp
next
  case (Cons t ts)
  obtain r0 st0 where step: "track_step env t ds st = (r0, st0)"
    by (cases "track_step env t ds st")
  then have s0: "spawned st0 = spawned st" by (rule track_step_spawned)
  show ?case
  proof (cases r0)
    case (Inl e)
    with step Cons.prems s0 show ?thesis by simp
  next
    case (Inr ds1)
    with step Cons.prems have "track_loop env ts ds1 st0 = (r, st1)" by simp
    then have "spawned st1 = spawned st0" by (rule Cons.IH)
    with s0 show ?thesis by simp
  qed
qed

lemma inspect_tracks_spawned:
  "inspect_tracks env f st = (r, st1) \<Longrightarrow>
     spawned st1 = spawned st @ [[mkvmerge_path env, ''-J'', f]]"
  by (auto simp: inspect_tracks_def subprocess_run_def
           split: prod.splits sum.splits if_splits dest: track_loop_spawned)

lemma inspect_tracks_error:
  "inspect_tracks env f st = (Inr (v, a, Some err), st1) \<Longrightarrow> v = None \<and> a = None"
  by (auto simp: inspect_tracks_def subprocess_run_def split: prod.splits sum.splits if_splits)

lemma get_tag_getcwd:
  "get_tag_durations_and_seconds env f st = (Inr r, st1) \<Longrightarrow> getcwd_error env = None"
  by (cases "getcwd_error env") (simp_all add: get_tag_durations_and_seconds_def)

lemma get_tag_returns:
  assumes "getcwd_error env = None"
  shows "\<exists>v a err st1. get_tag_durations_and_seconds env f st = (Inr (v, a, err), st1)"
proof (cases "inspect_tracks env f st")
  case (Pair r st1)
  with assms show ?thesis
    by (cases r) (auto simp: get_tag_durations_and_seconds_def try_except_def)
qed

lemma get_tag_error:
  assumes "get_tag_durations_and_seconds env f st = (Inr (v, a, Some err), st1)"
  shows "v = None \<and> a = None"
proof (cases "inspect_tracks env f st")
  case (Pair r st2)
  from assms have c: "getcwd_error env = None" by (rule get_tag_getcwd)
  show ?thesis
  proof (cases r)
    case (Inl e)
    with Pair assms c show ?thesis
      by (auto simp: get_tag_durations_and_seconds_def try_except_def split: if_splits)
  next
    case (Inr x)
    with Pair assms c inspect_tracks_error [of env f st v a err st1] show ?thesis
      by (auto simp: get_tag_durations_and_seconds_def try_except_def split: if_splits)
  qed
qed

lemma get_tag_spawned:
  assumes "get_tag_durations_and_seconds env f st = (Inr r, st1)"
  shows "spawned st1 =
     spawned st @ (if isfile env (mkvmerge_path env) then [[mkvmerge_path env, ''-J'', f]] else [])"
proof (cases "inspect_tracks env f st")
  case (Pair r2 st2)
  from assms have c: "getcwd_error env = None" by (rule get_tag_getcwd)
  from Pair have "spawned st2 = spawned st @ [[mkvmerge_path env, ''-J'', f]]"
    by (rule inspect_tracks_spawned)
  with Pair assms c show ?thesis
    by (cases r2) (auto simp: get_tag_durations_and_seconds_def try_except_def split: if_splits)
qed

lemma run_sync_spawned:
  "run_sync env f command log_message st = (r, st2) \<Longrightarrow> spawned st2 = spawned st @ [command]"
proof -
  assume a: "run_sync env f command log_message st = (r, st2)"
  have w: "write_log env m (st\<lparr>spawned := spawned st @ [command]\<rparr>) = (r', s') \<Longrightarrow>
             spawned s' = spawned st @ [command]" for m r' s'
    using write_log_spawned [of env m "st\<lparr>spawned := spawned st @ [command]\<rparr>" r' s'] by simp
  from a show ?thesis
    by (auto simp: run_sync_def subprocess_run_def Let_def
             split: sum.splits prod.splits if_splits dest: w)
qed

lemma sync_spawned:
  assumes g: "get_tag_durations_and_seconds env f st = (Inr (v, a, err), st1)"
  shows "spawned (snd (sync_audio_video env f st)) =
           spawned st1 @
             (case (v, a) of
                (Some x, Some y) \<Rightarrow> if float_lt x y then [sync_command env f x y] else []
              | _ \<Rightarrow> [])"
proof -
  from g have c: "getcwd_error env = None" by (rule get_tag_getcwd)
  have l: "spawned (snd (log_and_return env m out st1)) = spawned st1" for m and out :: string
    using log_and_return_spawned [of env m out st1] by (cases "log_and_return env m out st1") simp
  show ?thesis
  proof (cases "truthy err")
    case True
    then obtain e where "err = Some e" by (cases err) (auto simp: truthy_def)
    with g get_tag_error [of env f st v a e st1] have "v = None" "a = None" by auto
    with g True l show ?thesis by (simp add: sync_audio_video_def)
  next
    case False
    show ?thesis
    proof (cases "\<exists>x y. v = Some x \<and> a = Some y \<and> float_lt x y")
      case no: False
      with g False l show ?thesis
        by (auto simp: sync_audio_video_def Let_def split: option.splits)
    next
      case True
      then obtain x y where xy: "v = Some x" "a = Some y" "float_lt x y" by blast
      obtain r st2 where rs: "run_sync env f (sync_command env f x y)
          (''File: '' @ f @ NL @ ''Video Time: '' @ str_time env (Some x) @ '' s'' @ NL
           @ ''Audio Time: '' @ str_time env (Some y) @ '' s'' @ NL) st1 = (r, st2)"
        by (cases "run_sync env f (sync_command env f x y)
          (''File: '' @ f @ NL @ ''Video Time: '' @ str_time env (Some x) @ '' s'' @ NL
           @ ''Audio Time: '' @ str_time env (Some y) @ '' s'' @ NL) st1")
      then have s2: "spawned st2 = spawned st1 @ [sync_command env f x y]"
        by (rule run_sync_spawned)
      have l2: "spawned (snd (log_and_return env m out st2)) = spawned st2" for m and out :: string
        using log_and_return_spawned [of env m out st2] by (cases "log_and_return env m out st2") simp
      from g False xy c rs s2 l2 show ?thesis
        by (cases r) (auto simp: sync_audio_video_def Let_def split: prod.splits)
    qed
  qed
qed


lemma shorter_video_durations:
  "get_tag_durations_and_seconds shorter_video ''a.mkv'' empty_state =
     (Inr (Some nine, Some ten, None),
      \<lparr>log_file = [], spawned = [[''C:'' @ [CHR 0x5C] @ ''mkvmerge.exe'', ''-J'', ''a.mkv'']]\<rparr>)"
  by code_simp

lemma longer_video_durations:
  "get_tag_durations_and_seconds longer_video ''a.mkv'' empty_state =
     (Inr (Some ten, Some nine, None),
      \<lparr>log_file = [], spawned = [[''C:'' @ [CHR 0x5C] @ ''mkvmerge.exe'', ''-J'', ''a.mkv'']]\<rparr>)"
  by code_simp

lemma equal_durations_durations:
  "get_tag_durations_and_seconds equal_durations ''a.mkv'' empty_state =
     (Inr (Some ten, Some ten, None),
      \<lparr>log_file = [], spawned = [[''C:'' @ [CHR 0x5C] @ ''mkvmerge.exe'', ''-J'', ''a.mkv'']]\<rparr>)"
  by code_simp

lemma untagged_audio_durations:
  "get_tag_durations_and_seconds untagged_audio ''a.mkv'' empty_state =
     (Inr (Some nine, None, None),
      \<lparr>log_file = [], spawned = [[''C:'' @ [CHR 0x5C] @ ''mkvmerge.exe'', ''-J'', ''a.mkv'']]\<rparr>)"
  by code_simp

lemma nine_lt_ten: "float_lt nine ten"
  by code_simp

lemma ten_not_lt: "\<not> float_lt ten nine" "\<not> float_lt ten ten"
  by code_simp+

lemma sample_texts:
  "output_file (sample_env ts) ''a.mkv'' = ''a_1.mkv''"
  "repr_float (sample_env ts) nine = ''9.0''"
  "repr_float (sample_env ts) ten = ''10.0''"
  "mkvmerge_path (sample_env ts) = ''C:'' @ [CHR 0x5C] @ ''mkvmerge.exe''"
  "path_join (sample_env ts) (getcwd (sample_env ts)) ''mkvmerge.exe'' = ''C:'' @ [CHR 0x5C] @ ''mkvmerge.exe''"
  by (simp_all add: sample_env_def output_file_def splitext_def sample_repr_def nine_def ten_def
        mkvmerge_path_def)

text \<open>
  Claim C1. When the extraction has returned \<open>(video_time, audio_time, error)\<close>, the
  only process spawned so far is the inspection (none when the tool is missing), and
  \<open>sync_audio_video\<close> then spawns the remux command line (the executable, \<open>-o\<close>, the
  output path, \<open>--sync\<close>, the ratio text, the input path), once, if and only if both
  durations are present and \<open>video_time < audio_time\<close>; in every other case it spawns
  nothing.
\<close>

theorem remux_iff_video_shorter:
  assumes "get_tag_durations_and_seconds env input_file st = (Inr (video_time, audio_time, error), st1)"
  shows "spawned st1 =
           spawned st @ (if isfile env (mkvmerge_path env)
                         then [[mkvmerge_path env, ''-J'', input_file]] else [])
         \<and> spawned (snd (sync_audio_video env input_file st)) =
           spawned st1 @
             (case (video_time, audio_time) of
                (Some v, Some a) \<Rightarrow>
                  if float_lt v a
                  then [[mkvmerge_path env,
                         ''-o'', output_file env input_file,
                         ''--sync'', ''1:0,'' @ repr_float env v @ ''/'' @ repr_float env a,
                         input_file]]
                  else []
              | _ \<Rightarrow> [])"
  using get_tag_spawned [OF assms] sync_spawned [OF assms]
  by (simp add: sync_command_def split: option.splits)

theorem remux_iff_video_shorter_witness:
  "spawned (snd (sync_audio_video shorter_video ''a.mkv'' empty_state)) =
     [[''C:'' @ [CHR 0x5C] @ ''mkvmerge.exe'', ''-J'', ''a.mkv''],
      [''C:'' @ [CHR 0x5C] @ ''mkvmerge.exe'', ''-o'', ''a_1.mkv'', ''--sync'', ''1:0,9.0/10.0'', ''a.mkv'']]
   \<and> spawned (snd (sync_audio_video longer_video ''a.mkv'' empty_state)) =
     [[''C:'' @ [CHR 0x5C] @ ''mkvmerge.exe'', ''-J'', ''a.mkv'']]
   \<and> spawned (snd (sync_audio_video equal_durations ''a.mkv'' empty_state)) =
     [[''C:'' @ [CHR 0x5C] @ ''mkvmerge.exe'', ''-J'', ''a.mkv'']]
   \<and> spawned (snd (sync_audio_video untagged_audio ''a.mkv'' empty_state)) =
     [[''C:'' @ [CHR 0x5C] @ ''mkvmerge.exe'', ''-J'', ''a.mkv'']]"
  using remux_iff_video_shorter [OF shorter_video_durations]
        remux_iff_video_shorter [OF longer_video_durations]
        remux_iff_video_shorter [OF equal_durations_durations]
        remux_iff_video_shorter [OF untagged_audio_durations]
        nine_lt_ten ten_not_lt
  by (simp add: sample_texts shorter_video_def longer_video_def equal_durations_def
        untagged_audio_def)

text \<open>
  Claim C2. With both durations present and \<open>video_time < audio_time\<close>, the remux
  process is spawned with exactly: the path of the executable, \<open>-o\<close>, the output path,
  \<open>--sync\<close>, the text \<open>1:0,<video>/<audio>\<close> made of the two durations as they are (no
  quotient is computed), and the input path.
\<close>

theorem remux_arguments:
  assumes "get_tag_durations_and_seconds env input_file st = (Inr (Some v, Some a, error), st1)"
    and "float_lt v a"
  shows "spawned (snd (sync_audio_video env input_file st)) =
           spawned st1 @
             [[path_join env (getcwd env) ''mkvmerge.exe'',
               ''-o'', output_file env input_file,
               ''--sync'', ''1:0,'' @ repr_float env v @ ''/'' @ repr_float env a,
               input_file]]"
  using sync_spawned [OF assms(1)] assms(2) by (simp add: sync_command_def mkvmerge_path_def)

theorem remux_arguments_witness:
  "spawned (snd (sync_audio_video shorter_video ''a.mkv'' empty_state)) =
     [[''C:'' @ [CHR 0x5C] @ ''mkvmerge.exe'', ''-J'', ''a.mkv''],
      [''C:'' @ [CHR 0x5C] @ ''mkvmerge.exe'', ''-o'', ''a_1.mkv'', ''--sync'', ''1:0,9.0/10.0'', ''a.mkv'']]"
  using remux_arguments [OF shorter_video_durations nine_lt_ten]
  by (simp add: sample_texts shorter_video_def)

lemma truthy_None: "\<not> truthy None"
  by (simp add: truthy_def)

text \<open>
  Claim C4, as the code has it. When the extraction succeeds and a duration is absent,
  no remux process is spawned and the outcome is the message
  \<open>Error: Unable to retrieve durations for <file>\<close>, labelled \<open>Error\<close> and not \<open>Skipped\<close>,
  with one log entry ending with \<open>Error: Unable to retrieve durations\<close> appended; when
  the log file does not take that entry, what the write raises leaves the function
  instead.
\<close>

theorem absent_duration_outcome:
  assumes "get_tag_durations_and_seconds env input_file st = (Inr (video_time, audio_time, error), st1)"
    and "\<not> truthy error"
    and "video_time = None \<or> audio_time = None"
  shows "outcome_label (''Error: Unable to retrieve durations for '' @ input_file) = ''Error''
         \<and> spawned (snd (sync_audio_video env input_file st)) = spawned st1
         \<and> (case log_write env (log_file st1)
                   (''File: '' @ input_file @ NL
                    @ ''Video Time: '' @ str_time env video_time @ '' s'' @ NL
                    @ ''Audio Time: '' @ str_time env audio_time @ '' s'' @ NL
                    @ ''Error: Unable to retrieve durations'' @ NL @ NL) of
              None \<Rightarrow>
                fst (sync_audio_video env input_file st) =
                  Inr (''Error: Unable to retrieve durations for '' @ input_file)
                \<and> log_file (snd (sync_audio_video env input_file st)) =
                    log_file st1 @
                      [''File: '' @ input_file @ NL
                       @ ''Video Time: '' @ str_time env video_time @ '' s'' @ NL
                       @ ''Audio Time: '' @ str_time env audio_time @ '' s'' @ NL
                       @ ''Error: Unable to retrieve durations'' @ NL @ NL]
            | Some e \<Rightarrow>
                fst (sync_audio_video env input_file st) = Inl e
                \<and> log_file (snd (sync_audio_video env input_file st)) = log_file st1)"
proof -
  have lab: "outcome_label (''Error: Unable to retrieve durations for '' @ input_file) = ''Error''"
    by (simp add: outcome_label_def)
  from assms(3) show ?thesis
  proof
    assume "video_time = None"
    with assms(1,2) lab show ?thesis
      by (simp add: sync_audio_video_def log_and_return_def write_log_def Let_def
               split: option.splits)
  next
    assume "audio_time = None"
    with assms(1,2) lab show ?thesis
      by (cases video_time)
         (simp_all add: sync_audio_video_def log_and_return_def write_log_def Let_def
               split: option.splits)
  qed
qed

theorem absent_duration_outcome_witness:
  "fst (sync_audio_video untagged_audio ''a.mkv'' empty_state) =
     Inr ''Error: Unable to retrieve durations for a.mkv''
   \<and> spawned (snd (sync_audio_video untagged_audio ''a.mkv'' empty_state)) =
     [[''C:'' @ [CHR 0x5C] @ ''mkvmerge.exe'', ''-J'', ''a.mkv'']]"
proof -
  have "log_write untagged_audio written entry = None" for written entry
    by (simp add: untagged_audio_def sample_env_def)
  with absent_duration_outcome [OF untagged_audio_durations truthy_None] show ?thesis by simp
qed

theorem absent_duration_not_skipped:
  "fst (get_tag_durations_and_seconds untagged_audio ''a.mkv'' empty_state) =
     Inr (Some nine, None, None)
   \<and> fst (sync_audio_video untagged_audio ''a.mkv'' empty_state) =
     Inr ''Error: Unable to retrieve durations for a.mkv''
   \<and> outcome_label ''Error: Unable to retrieve durations for a.mkv'' \<noteq> ''Skipped''"
proof -
  have w: "log_write untagged_audio written entry = None" for written entry
    by (simp add: untagged_audio_def sample_env_def)
  have "fst (sync_audio_video untagged_audio ''a.mkv'' empty_state) =
     Inr ''Error: Unable to retrieve durations for a.mkv''"
    using untagged_audio_durations
    by (simp add: sync_audio_video_def truthy_def Let_def log_and_return_def write_log_def w)
  then show ?thesis
    by (simp add: untagged_audio_durations outcome_label_def)
qed


section \<open>The loop over the tracks\<close>

lemma parse_value:
  "parse_duration_to_seconds env d st = (Inr r, st1) \<Longrightarrow> r = seconds_of env d"
  by (auto simp: parse_duration_to_seconds_eq seconds_of_def log_and_return_def
           split: sum.splits prod.splits)

text \<open>What one pass of the loop leaves in \<open>video_time\<close> and \<open>audio_time\<close>.\<close>

lemma track_step_value:
  assumes "track_step env t (v0, a0) st = (Inr (v1, a1), st1)"
  shows "v1 = (if tagged ''video'' t then seconds_of env (tag_of t) else v0)
       \<and> a1 = (if tagged ''audio'' t then seconds_of env (tag_of t) else a0)"
proof (cases "track_fields t")
  case (Inl e)
  with assms show ?thesis by (simp add: track_step_def)
next
  case (Inr p)
  obtain ty tag where p: "p = (ty, tag)" by (cases p)
  show ?thesis
  proof (cases "tag = JStr ''unknown''")
    case True
    with assms Inr p show ?thesis by (simp add: track_step_def tagged_def tag_of_def)
  next
    case False
    obtain r s where q: "parse_duration_to_seconds env tag st = (r, s)"
      by (cases "parse_duration_to_seconds env tag st")
    show ?thesis
    proof (cases r)
      case (Inl e)
      with assms Inr p False q show ?thesis by (simp add: track_step_def)
    next
      case parsed: (Inr x)
      with q have x: "x = seconds_of env tag" by (simp add: parse_value)
      from assms Inr p False q parsed x show ?thesis
        by (auto simp: track_step_def tagged_def tag_of_def split: if_splits)
    qed
  qed
qed

lemma last_tagged_Cons:
  "last_tagged env kind (t # ts) before =
     last_tagged env kind ts (if tagged kind t then seconds_of env (tag_of t) else before)"
  by (cases "rev (filter (tagged kind) ts)") (simp_all add: last_tagged_def)

lemma track_loop_last:
  "track_loop env ts (v0, a0) st = (Inr (v, a), st1) \<Longrightarrow>
     v = last_tagged env ''video'' ts v0 \<and> a = last_tagged env ''audio'' ts a0"
proof (induction ts arbitrary: v0 a0 st)
  case Nil
  then show ?case by (simp add: last_tagged_def)
next
  case (Cons t ts)
  obtain r1 s1 where q1: "track_step env t (v0, a0) st = (r1, s1)"
    by (cases "track_step env t (v0, a0) st")
  show ?case
  proof (cases r1)
    case (Inl e)
    with q1 Cons.prems show ?thesis by simp
  next
    case (Inr ds1)
    obtain v1 a1 where ds1: "ds1 = (v1, a1)" by (cases ds1)
    from q1 Inr ds1 have "track_step env t (v0, a0) st = (Inr (v1, a1), s1)" by simp
    from track_step_value [OF this]
    have v1: "v1 = (if tagged ''video'' t then seconds_of env (tag_of t) else v0)"
      and a1: "a1 = (if tagged ''audio'' t then seconds_of env (tag_of t) else a0)"
      by simp_all
    from q1 Inr ds1 Cons.prems have "track_loop env ts (v1, a1) s1 = (Inr (v, a), st1)" by simp
    from Cons.IH [OF this] v1 a1 show ?thesis by (simp add: last_tagged_Cons)
  qed
qed

section \<open>Which track gives the duration\<close>

lemma two_videos_durations:
  "fst (get_tag_durations_and_seconds two_videos ''a.mkv'' empty_state) =
     Inr (Some ten, None, None)"
  by code_simp

lemma first_video_duration:
  "seconds_of two_videos (tag_of (sample_track ''video'' ''0:00:09'')) = Some nine"
  by code_simp

lemma nine_neq_ten: "nine \<noteq> ten"
  by (simp add: nine_def ten_def)

text \<open>
  Claim C3, as the code has it. When the inspection succeeds and reports the list
  \<open>tracks\<close>, the video field is what \<open>parse_duration_to_seconds\<close> returns for the tag of
  the last video track whose \<open>tag_duration\<close> is not \<open>unknown\<close> (absent when there is none,
  or when that tag does not parse), and the audio field likewise for the last such audio
  track: the loop overwrites the value at every such track.
\<close>

theorem last_tagged_track_wins:
  assumes "isfile env (mkvmerge_path env)"
    and "run_process env [mkvmerge_path env, ''-J'', mkv_file] = Inr result"
    and "returncode result = 0"
    and "json_loads env (stdout result) = Inr mkv_info"
    and "py_get mkv_info ''tracks'' (JList []) = Inr (JList tracks)"
    and "get_tag_durations_and_seconds env mkv_file st = (Inr (video_time, audio_time, None), st1)"
  shows "video_time = last_tagged env ''video'' tracks None
       \<and> audio_time = last_tagged env ''audio'' tracks None"
proof -
  let ?st = "st\<lparr>spawned := spawned st @ [[mkvmerge_path env, ''-J'', mkv_file]]\<rparr>"
  obtain r s where q: "track_loop env tracks (None, None) ?st = (r, s)"
    by (cases "track_loop env tracks (None, None) ?st")
  from assms(2-5) q have i: "inspect_tracks env mkv_file st =
      (case r of Inl e \<Rightarrow> (Inl e, s) | Inr (v, a) \<Rightarrow> (Inr (v, a, None), s))"
    by (simp add: inspect_tracks_def subprocess_run_def py_iter_def split: sum.splits)
  from assms(6) have c: "getcwd_error env = None" by (rule get_tag_getcwd)
  show ?thesis
  proof (cases r)
    case (Inl e)
    with i c assms(1,6) show ?thesis
      by (simp add: get_tag_durations_and_seconds_def try_except_def)
  next
    case (Inr p)
    obtain v a where p: "p = (v, a)" by (cases p)
    from i c Inr p assms(1,6) have "v = video_time" "a = audio_time"
      by (simp_all add: get_tag_durations_and_seconds_def try_except_def)
    with q Inr p have "track_loop env tracks (None, None) ?st = (Inr (video_time, audio_time), s)"
      by simp
    then show ?thesis by (rule track_loop_last)
  qed
qed

theorem last_tagged_track_wins_witness:
  "fst (get_tag_durations_and_seconds two_videos ''a.mkv'' empty_state) =
     Inr (last_tagged two_videos ''video''
            [sample_track ''video'' ''0:00:09'', sample_track ''video'' ''0:00:10''] None,
          last_tagged two_videos ''audio''
            [sample_track ''video'' ''0:00:09'', sample_track ''video'' ''0:00:10''] None,
          None)"
proof -
  let ?ts = "[sample_track ''video'' ''0:00:09'', sample_track ''video'' ''0:00:10'']"
  let ?result = "\<lparr>returncode = 0, stdout = ''{}'', stderr = []\<rparr>"
  obtain st1 where g: "get_tag_durations_and_seconds two_videos ''a.mkv'' empty_state =
      (Inr (Some ten, None, None), st1)"
    using two_videos_durations by (cases "get_tag_durations_and_seconds two_videos ''a.mkv'' empty_state") simp
  have 1: "isfile two_videos (mkvmerge_path two_videos)"
    by (simp add: two_videos_def sample_env_def)
  have 2: "run_process two_videos [mkvmerge_path two_videos, ''-J'', ''a.mkv''] = Inr ?result"
    by (simp add: two_videos_def sample_env_def)
  have 3: "returncode ?result = 0" by simp
  have 4: "json_loads two_videos (stdout ?result) = Inr (JDict [(''tracks'', JList ?ts)])"
    by (simp add: two_videos_def sample_env_def)
  have 5: "py_get (JDict [(''tracks'', JList ?ts)]) ''tracks'' (JList []) = Inr (JList ?ts)"
    by (simp add: py_get_def)
  from last_tagged_track_wins [OF 1 2 3 4 5 g] g show ?thesis by simp
qed

text \<open>
  Claim C3 as stated fails: with two tagged video tracks of 9 and 10 seconds, the video
  field is the duration of the second one, not of the first.
\<close>

theorem first_tagged_track_overwritten:
  "fst (get_tag_durations_and_seconds two_videos ''a.mkv'' empty_state) =
     Inr (Some ten, None, None)
   \<and> seconds_of two_videos (tag_of (sample_track ''video'' ''0:00:09'')) = Some nine
   \<and> nine \<noteq> ten"
  using two_videos_durations first_video_duration nine_neq_ten by simp


section \<open>One file when the log file takes every entry\<close>












section \<open>What leaves \<open>sync_audio_video\<close> as an exception\<close>







lemma shorter_video_outcome:
  "fst (sync_audio_video shorter_video ''a.mkv'' empty_state) = Inr ''Success: a.mkv -> a_1.mkv''"
  by code_simp





section \<open>A folder, and the log\<close>











section \<open>The sign of a parsed duration\<close>


















end
